theory Spec2Isabelle
  imports Complex_Main "HOL-Library.Sublist"
begin

section \<open>JavaScript values and built-ins used by the upload pipeline\<close>

text \<open>
  The two server files (the serverless function with \<open>export default async function handler\<close>
  and the Express server with \<open>app.post('/api/upload-excel', ...)\<close>) work on the cell
  objects of the spreadsheet decoder. Their built-ins are modelled as follows.

  \<^item> Strings are \<open>char list\<close>s. Case mapping, whitespace and digits are interpreted on
    ASCII; every other code unit is carried through unchanged.
  \<^item> A number is \<open>NaN\<close>, an infinity or an exact rational. Rounding to binary
    floating point is not modelled: products and differences are exact, and a literal
    too large for a double stays finite. Rounding is monotone, so it changes neither
    which strings convert to \<open>NaN\<close> nor reverses a comparison; it can only make two
    numbers equal.
  \<^item> A value that flows through the pipeline is a string or a number. A lookup of a key
    that an object does not have (\<open>undefined\<close>) is \<open>None\<close> of an option.
  \<^item> An object is the finite map of its own properties; the property name
    \<open>__proto__\<close>, which assignment treats specially, is a key like any other here.
\<close>

datatype jsnum = NaN | NegInf | Fin rat | PosInf

datatype jsval = Str string | Num jsnum

definition truthy :: "jsval \<Rightarrow> bool" where
  "truthy x = (case x of Str s \<Rightarrow> s \<noteq> [] | Num n \<Rightarrow> n \<noteq> NaN \<and> n \<noteq> Fin 0)"

text \<open>\<open>a || b\<close>\<close>

definition js_or :: "jsval \<Rightarrow> jsval \<Rightarrow> jsval" where
  "js_or a b = (if truthy a then a else b)"

subsection \<open>Characters and strings\<close>

definition isWhiteSpace :: "char \<Rightarrow> bool" where
  "isWhiteSpace c = ((of_char c :: nat) \<in> {9, 10, 11, 12, 13, 32})"

definition isDigit :: "char \<Rightarrow> bool" where
  "isDigit c = (48 \<le> (of_char c :: nat) \<and> (of_char c :: nat) \<le> 57)"

definition isUpper :: "char \<Rightarrow> bool" where
  "isUpper c = (65 \<le> (of_char c :: nat) \<and> (of_char c :: nat) \<le> 90)"

definition isLower :: "char \<Rightarrow> bool" where
  "isLower c = (97 \<le> (of_char c :: nat) \<and> (of_char c :: nat) \<le> 122)"

text \<open>The character class \<open>[A-Za-z]\<close>.\<close>

definition isAlpha :: "char \<Rightarrow> bool" where
  "isAlpha c = (isUpper c \<or> isLower c)"

definition toUpperChar :: "char \<Rightarrow> char" where
  "toUpperChar c = (if isLower c then char_of ((of_char c :: nat) - 32) else c)"

definition toLowerChar :: "char \<Rightarrow> char" where
  "toLowerChar c = (if isUpper c then char_of ((of_char c :: nat) + 32) else c)"

definition toUpperCase :: "string \<Rightarrow> string" where
  "toUpperCase s = map toUpperChar s"

definition toLowerCase :: "string \<Rightarrow> string" where
  "toLowerCase s = map toLowerChar s"

definition trim :: "string \<Rightarrow> string" where
  "trim s = rev (dropWhile isWhiteSpace (rev (dropWhile isWhiteSpace s)))"

definition startsWith :: "string \<Rightarrow> string \<Rightarrow> bool" where
  "startsWith s p = (take (length p) s = p)"

text \<open>\<open>s.includes(n)\<close>: \<open>n\<close> occurs in \<open>s\<close> as a contiguous substring.\<close>

fun str_includes :: "string \<Rightarrow> string \<Rightarrow> bool" where
  "str_includes [] n = (n = [])"
| "str_includes (c # cs) n = (startsWith (c # cs) n \<or> str_includes cs n)"

text \<open>\<open>s.padStart(2, '0')\<close>\<close>

definition padStart2 :: "string \<Rightarrow> string" where
  "padStart2 s = replicate (2 - length s) (CHR ''0'') @ s"

subsection \<open>Numbers to strings\<close>

definition digitChar :: "nat \<Rightarrow> char" where
  "digitChar d = char_of (48 + d)"

fun natToString :: "nat \<Rightarrow> string" where
  "natToString n =
     (if n < 10 then [digitChar n] else natToString (n div 10) @ [digitChar (n mod 10)])"

declare natToString.simps [simp del]

definition intToString :: "int \<Rightarrow> string" where
  "intToString i = (if i < 0 then CHR ''-'' # natToString (nat (- i)) else natToString (nat i))"

text \<open>
  The digits after the decimal point of a fraction \<open>0 \<le> r < 1\<close>, by long division. The
  expansion of a number with a short decimal representation ends by itself; the bound
  cuts every other one.
\<close>

fun fracDigits :: "nat \<Rightarrow> rat \<Rightarrow> string" where
  "fracDigits 0 r = []"
| "fracDigits (Suc k) r =
     (if r = 0 then []
      else digitChar (nat \<lfloor>r * 10\<rfloor>) # fracDigits k (r * 10 - of_int \<lfloor>r * 10\<rfloor>))"

text \<open>
  \<open>Number.prototype.toString\<close>, in the decimal notation that JavaScript uses for
  magnitudes from \<open>1e-6\<close> up to \<open>1e21\<close>.
\<close>

definition numberToString :: "jsnum \<Rightarrow> string" where
  "numberToString n =
     (case n of
        NaN \<Rightarrow> ''NaN''
      | PosInf \<Rightarrow> ''Infinity''
      | NegInf \<Rightarrow> ''-Infinity''
      | Fin q \<Rightarrow>
          (if q < 0 then ''-'' else '''') @ natToString (nat \<lfloor>\<bar>q\<bar>\<rfloor>) @
          (if \<bar>q\<bar> = of_int \<lfloor>\<bar>q\<bar>\<rfloor> then ''''
           else CHR ''.'' # fracDigits 17 (\<bar>q\<bar> - of_int \<lfloor>\<bar>q\<bar>\<rfloor>)))"

text \<open>\<open>String(x)\<close>, \<open>x.toString()\<close> and the interpolation \<open>${x}\<close>.\<close>

definition toString :: "jsval \<Rightarrow> string" where
  "toString x = (case x of Str s \<Rightarrow> s | Num n \<Rightarrow> numberToString n)"

subsection \<open>Integer arithmetic\<close>

text \<open>\<open>Math.round\<close> rounds a half towards positive infinity.\<close>

definition Math_round :: "rat \<Rightarrow> int" where
  "Math_round x = \<lfloor>x + 1 / 2\<rfloor>"

text \<open>The remainder \<open>a % b\<close> takes the sign of the dividend.\<close>

definition js_rem :: "int \<Rightarrow> int \<Rightarrow> int" where
  "js_rem a b = sgn a * (\<bar>a\<bar> mod \<bar>b\<bar>)"

section \<open>Cells and the cell formatting rule\<close>

text \<open>
  A cell object of the decoder has an optional formatted text \<open>w\<close> and an optional raw
  value \<open>v\<close>, a finite number or a text, as in the interface that the specification
  gives for the decoder. A worksheet maps the address of a cell (row and column, both
  zero-based, which \<open>XLSX.utils.encode_cell\<close> encodes injectively) to its cell object, if
  there is one.
\<close>

datatype raw = RNum rat | RStr string

record cell =
  cell_w :: "string option"
  cell_v :: "raw option"

type_synonym worksheet = "nat \<times> nat \<Rightarrow> cell option"


definition timeString :: "int \<Rightarrow> int \<Rightarrow> string" where
  "timeString hours minutes =
     padStart2 (intToString hours) @ '':'' @ padStart2 (intToString minutes)"

text \<open>
  \<open>convertExcelTime\<close> of the Express server. On a number that is not finite every
  intermediate result is \<open>NaN\<close>, which prints as \<open>NaN\<close>.
\<close>

definition convertExcelTime :: "jsval \<Rightarrow> jsval" where
  "convertExcelTime serial =
     (case serial of
        Str s \<Rightarrow> serial
      | Num n \<Rightarrow>
          (case n of
             Fin q \<Rightarrow>
               (let totalMinutes = Math_round (q * 24 * 60);
                    hours = js_rem (totalMinutes div 60) 24;
                    minutes = js_rem totalMinutes 60
                in Str (timeString hours minutes))
           | _ \<Rightarrow> Str ''NaN:NaN''))"

definition getFormattedCellValue :: "worksheet \<Rightarrow> nat \<times> nat \<Rightarrow> jsval" where
  "getFormattedCellValue worksheet cellAddress =
     (case worksheet cellAddress of
        None \<Rightarrow> Str ''''
      | Some c \<Rightarrow>
          (if cell_w c \<noteq> None \<and> cell_w c \<noteq> Some '''' then Str (the (cell_w c))
           else (case cell_v c of
                   Some (RNum q) \<Rightarrow>
                     (if 0 \<le> q \<and> q < 1 then convertExcelTime (Num (Fin q)) else Num (Fin q))
                 | Some (RStr s) \<Rightarrow> Str s
                 | None \<Rightarrow> Str '''')))"

text \<open>The same two helpers as the serverless function declares them.\<close>

definition api_convertExcelTime :: "jsval \<Rightarrow> jsval" where
  "api_convertExcelTime serial =
     (case serial of
        Str s \<Rightarrow> serial
      | Num n \<Rightarrow>
          (case n of
             Fin q \<Rightarrow>
               (let totalMinutes = Math_round (q * 24 * 60);
                    hours = js_rem (totalMinutes div 60) 24;
                    minutes = js_rem totalMinutes 60
                in Str (timeString hours minutes))
           | _ \<Rightarrow> Str ''NaN:NaN''))"

definition api_getFormattedCellValue :: "worksheet \<Rightarrow> nat \<times> nat \<Rightarrow> jsval" where
  "api_getFormattedCellValue worksheet cellAddress =
     (case worksheet cellAddress of
        None \<Rightarrow> Str ''''
      | Some c \<Rightarrow>
          (if cell_w c \<noteq> None \<and> cell_w c \<noteq> Some '''' then Str (the (cell_w c))
           else (case cell_v c of
                   Some (RNum q) \<Rightarrow>
                     (if 0 \<le> q \<and> q < 1 then api_convertExcelTime (Num (Fin q)) else Num (Fin q))
                 | Some (RStr s) \<Rightarrow> Str s
                 | None \<Rightarrow> Str '''')))"




section \<open>Status classification\<close>

record statusInfo =
  status :: string
  color :: string
  type :: string

text \<open>
  The two anchored patterns \<open>/^\d{1,2}:\d{2}$/\<close> and \<open>/^\d{1,2}-[A-Za-z]{3}$/\<close>. The
  character after the leading digits is not a digit, so the leading digits of a match
  are all the digits at the start of the string.
\<close>

definition matchesTime :: "string \<Rightarrow> bool" where
  "matchesTime s =
     (let ds = takeWhile isDigit s; rest = dropWhile isDigit s
      in (length ds = 1 \<or> length ds = 2) \<and>
         (case rest of
            [] \<Rightarrow> False
          | c # ms \<Rightarrow> c = CHR '':'' \<and> length ms = 2 \<and> list_all isDigit ms))"

definition matchesDate :: "string \<Rightarrow> bool" where
  "matchesDate s =
     (let ds = takeWhile isDigit s; rest = dropWhile isDigit s
      in (length ds = 1 \<or> length ds = 2) \<and>
         (case rest of
            [] \<Rightarrow> False
          | c # ls \<Rightarrow> c = CHR ''-'' \<and> length ls = 3 \<and> list_all isAlpha ls))"

text \<open>\<open>getStatusInfo\<close> of the Express server.\<close>

definition getStatusInfo :: "jsval \<Rightarrow> statusInfo" where
  "getStatusInfo value =
     (if \<not> truthy value \<or> value = Str '''' then
        \<lparr>status = ''NA'', color = ''#d9d9d9'', type = ''default''\<rparr>
      else
        (let strValue = trim (toUpperCase (toString value))
         in if strValue \<in> set [''ACTIVE'', ''PASS'', ''ENABLED'', ''UNSUSPENDED''] then
              \<lparr>status = strValue, color = ''#00B050'', type = ''success''\<rparr>
            else if strValue \<in> set [''OFF'', ''FAILED'', ''INACTIVE'', ''SUSPENDED''] then
              \<lparr>status = strValue, color = ''#FF0000'', type = ''error''\<rparr>
            else if strValue \<in> set [''PENDING''] then
              \<lparr>status = strValue, color = ''#FFC000'', type = ''warning''\<rparr>
            else if matchesTime strValue then
              (if strValue = ''00:00'' then
                 \<lparr>status = strValue, color = ''#d9d9d9'', type = ''default''\<rparr>
               else \<lparr>status = strValue, color = ''#0070C0'', type = ''processing''\<rparr>)
            else if matchesDate strValue then
              \<lparr>status = strValue, color = ''#7030A0'', type = ''purple''\<rparr>
            else if strValue = ''NA'' then
              \<lparr>status = ''NA'', color = ''#d9d9d9'', type = ''default''\<rparr>
            else \<lparr>status = strValue, color = ''#0070C0'', type = ''info''\<rparr>))"

text \<open>\<open>getStatusInfo\<close> of the serverless function.\<close>

definition api_getStatusInfo :: "jsval \<Rightarrow> statusInfo" where
  "api_getStatusInfo value =
     (if \<not> truthy value \<or> value = Str '''' then
        \<lparr>status = ''NA'', color = ''#d9d9d9'', type = ''default''\<rparr>
      else
        (let strValue = trim (toUpperCase (toString value))
         in if strValue \<in> set [''ACTIVE'', ''PASS'', ''ENABLED'', ''UNSUSPENDED''] then
              \<lparr>status = strValue, color = ''#00B050'', type = ''success''\<rparr>
            else if strValue \<in> set [''OFF'', ''FAILED'', ''INACTIVE'', ''SUSPENDED''] then
              \<lparr>status = strValue, color = ''#FF0000'', type = ''error''\<rparr>
            else if strValue \<in> set [''PENDING''] then
              \<lparr>status = strValue, color = ''#FFC000'', type = ''warning''\<rparr>
            else if matchesTime strValue then
              (if strValue = ''00:00'' then
                 \<lparr>status = strValue, color = ''#d9d9d9'', type = ''default''\<rparr>
               else \<lparr>status = strValue, color = ''#0070C0'', type = ''processing''\<rparr>)
            else if matchesDate strValue then
              \<lparr>status = strValue, color = ''#7030A0'', type = ''purple''\<rparr>
            else if strValue = ''NA'' then
              \<lparr>status = ''NA'', color = ''#d9d9d9'', type = ''default''\<rparr>
            else \<lparr>status = strValue, color = ''#0070C0'', type = ''info''\<rparr>))"



section \<open>Strings to numbers\<close>

text \<open>
  \<open>Number(x)\<close> on a string follows the grammar of numeric string literals: surrounding
  whitespace is dropped, the empty string is \<open>0\<close>, then come the literals with a radix
  prefix, the decimal literals with an optional sign, fraction and exponent, and
  \<open>Infinity\<close>; every other string is \<open>NaN\<close>.
\<close>

definition digitOf :: "char \<Rightarrow> nat option" where
  "digitOf c =
     (if isDigit c then Some (of_char c - 48)
      else if 97 \<le> (of_char c :: nat) \<and> (of_char c :: nat) \<le> 102 then Some (of_char c - 87)
      else if 65 \<le> (of_char c :: nat) \<and> (of_char c :: nat) \<le> 70 then Some (of_char c - 55)
      else None)"

definition isDigitOfRadix :: "nat \<Rightarrow> char \<Rightarrow> bool" where
  "isDigitOfRadix b c = (case digitOf c of None \<Rightarrow> False | Some d \<Rightarrow> d < b)"

definition digitsValue :: "nat \<Rightarrow> string \<Rightarrow> nat" where
  "digitsValue b ds = foldl (\<lambda>a c. b * a + (case digitOf c of None \<Rightarrow> 0 | Some d \<Rightarrow> d)) 0 ds"

definition isDigits :: "string \<Rightarrow> bool" where
  "isDigits ds = (ds \<noteq> [] \<and> list_all isDigit ds)"

definition parseExponent :: "string \<Rightarrow> int option" where
  "parseExponent s =
     (case s of
        [] \<Rightarrow> Some 0
      | c # t \<Rightarrow>
          (if c = CHR ''e'' \<or> c = CHR ''E'' then
             (case t of
                [] \<Rightarrow> None
              | sg # ds \<Rightarrow>
                  (if sg = CHR ''+'' then
                     (if isDigits ds then Some (int (digitsValue 10 ds)) else None)
                   else if sg = CHR ''-'' then
                     (if isDigits ds then Some (- int (digitsValue 10 ds)) else None)
                   else if isDigits t then Some (int (digitsValue 10 t))
                   else None))
           else None))"

definition scale10 :: "rat \<Rightarrow> int \<Rightarrow> rat" where
  "scale10 m e = (if 0 \<le> e then m * 10 ^ nat e else m / 10 ^ nat (- e))"

definition parseUnsignedDecimal :: "string \<Rightarrow> jsnum" where
  "parseUnsignedDecimal s =
     (if s = ''Infinity'' then PosInf
      else
        (let ip = takeWhile isDigit s;
             r1 = dropWhile isDigit s;
             hasDot = (r1 \<noteq> [] \<and> hd r1 = CHR ''.'');
             fp = (if hasDot then takeWhile isDigit (tl r1) else []);
             r2 = (if hasDot then dropWhile isDigit (tl r1) else r1)
         in if ip = [] \<and> fp = [] then NaN
            else (case parseExponent r2 of
                    None \<Rightarrow> NaN
                  | Some e \<Rightarrow>
                      Fin (scale10 (of_nat (digitsValue 10 (ip @ fp))) (e - int (length fp))))))"

definition negate :: "jsnum \<Rightarrow> jsnum" where
  "negate n = (case n of NaN \<Rightarrow> NaN | NegInf \<Rightarrow> PosInf | Fin q \<Rightarrow> Fin (- q) | PosInf \<Rightarrow> NegInf)"

definition parseDecimal :: "string \<Rightarrow> jsnum" where
  "parseDecimal s =
     (case s of
        [] \<Rightarrow> NaN
      | c # t \<Rightarrow>
          (if c = CHR ''+'' then parseUnsignedDecimal t
           else if c = CHR ''-'' then negate (parseUnsignedDecimal t)
           else parseUnsignedDecimal s))"

definition parseRadix :: "nat \<Rightarrow> string \<Rightarrow> jsnum" where
  "parseRadix b ds =
     (if ds \<noteq> [] \<and> list_all (isDigitOfRadix b) ds then Fin (of_nat (digitsValue b ds)) else NaN)"

definition parseNonDecimal :: "string \<Rightarrow> jsnum option" where
  "parseNonDecimal s =
     (case s of
        z # x # ds \<Rightarrow>
          (if z = CHR ''0'' \<and> (x = CHR ''x'' \<or> x = CHR ''X'') then Some (parseRadix 16 ds)
           else if z = CHR ''0'' \<and> (x = CHR ''o'' \<or> x = CHR ''O'') then Some (parseRadix 8 ds)
           else if z = CHR ''0'' \<and> (x = CHR ''b'' \<or> x = CHR ''B'') then Some (parseRadix 2 ds)
           else None)
      | _ \<Rightarrow> None)"

definition stringToNumber :: "string \<Rightarrow> jsnum" where
  "stringToNumber s =
     (let t = trim s
      in if t = [] then Fin 0
         else (case parseNonDecimal t of Some n \<Rightarrow> n | None \<Rightarrow> parseDecimal t))"

definition Number :: "jsval \<Rightarrow> jsnum" where
  "Number x = (case x of Str s \<Rightarrow> stringToNumber s | Num n \<Rightarrow> n)"

definition isNaN :: "jsnum \<Rightarrow> bool" where
  "isNaN n = (n = NaN)"

section \<open>The upload pipeline of the Express server\<close>

text \<open>
  \<open>XLSX.utils.decode_range\<close> gives the first and the last row and column of the sheet
  (\<open>range.s.r\<close>, \<open>range.s.c\<close>, \<open>range.e.r\<close>, \<open>range.e.c\<close>). A row object is a finite map
  from property names to values. The only exception that the loops can raise is the
  \<open>TypeError\<close> of calling \<open>startsWith\<close> on a header that is not a string.
\<close>

record sheet_range =
  s_r :: nat
  s_c :: nat
  e_r :: nat
  e_c :: nat

datatype error = TypeError | DecodeFailure | ParseFailure | NoSuchFile

type_synonym rowData = "string \<rightharpoonup> jsval"

text \<open>The loop \<open>for (let col = range.s.c; col <= range.e.c; col++)\<close> over the header row.\<close>

function extractHeaders :: "worksheet \<Rightarrow> sheet_range \<Rightarrow> nat \<Rightarrow> jsval list \<Rightarrow> jsval list" where
  "extractHeaders worksheet rng col headers =
     (if col \<le> e_c rng then
        extractHeaders worksheet rng (col + 1)
          (headers @ [js_or (getFormattedCellValue worksheet (s_r rng, col))
                            (Str (''Column'' @ natToString (col + 1)))])
      else headers)"
  by pat_completeness auto
termination
  by (relation "measure (\<lambda>(worksheet, rng, col, headers). e_c rng + 1 - col)") auto

declare extractHeaders.simps [simp del]

text \<open>\<open>headers[i]\<close>, which is \<open>undefined\<close> beyond the end of the array.\<close>

definition headerAt :: "jsval list \<Rightarrow> nat \<Rightarrow> jsval option" where
  "headerAt headers i = (if i < length headers then Some (headers ! i) else None)"

text \<open>The mapping of a header to its clean name (\<open>let cleanHeader = header; if ...\<close>).\<close>

definition cleanHeader :: "string \<Rightarrow> string" where
  "cleanHeader header =
     (if str_includes (toLowerCase header) ''s.no'' \<or> str_includes (toLowerCase header) ''s no''
         \<or> toLowerCase header = ''s.no'' then ''S.No''
      else if str_includes (toLowerCase header) ''job'' \<and> str_includes (toLowerCase header) ''detail''
        then ''Job Details''
      else if str_includes (toLowerCase header) ''comment'' then ''Comments''
      else header)"

text \<open>
  The body of the loop over the columns of one data row. The variable \<open>hasValidData\<close> of
  the source is assigned and never read.
\<close>

definition processColumn :: "jsval option \<Rightarrow> jsval \<Rightarrow> rowData \<Rightarrow> error + rowData" where
  "processColumn header cellValue rowData =
     (case header of
        None \<Rightarrow> Inr rowData
      | Some h \<Rightarrow>
          (if \<not> truthy h then Inr rowData
           else
             (case h of
                Num n \<Rightarrow> Inl TypeError
              | Str hs \<Rightarrow>
                  (if startsWith hs ''Column'' then Inr rowData
                   else
                     (let ch = cleanHeader hs;
                          stored = rowData(ch \<mapsto> js_or cellValue (Str ''''))
                      in if ch \<notin> set [''S.No'', ''Job Details'', ''Comments''] then
                           (let statusInfo = getStatusInfo cellValue
                            in Inr (stored(ch @ ''_status'' \<mapsto> Str (status statusInfo),
                                           ch @ ''_color'' \<mapsto> Str (color statusInfo),
                                           ch @ ''_type'' \<mapsto> Str (type statusInfo))))
                         else Inr stored)))))"

function processColumns ::
  "worksheet \<Rightarrow> sheet_range \<Rightarrow> jsval list \<Rightarrow> nat \<Rightarrow> nat \<Rightarrow> rowData \<Rightarrow> error + rowData" where
  "processColumns worksheet rng headers row col rowData =
     (if col \<le> e_c rng then
        (case processColumn (headerAt headers (col - s_c rng))
                (getFormattedCellValue worksheet (row, col)) rowData of
           Inl e \<Rightarrow> Inl e
         | Inr rowData' \<Rightarrow> processColumns worksheet rng headers row (col + 1) rowData')
      else Inr rowData)"
  by pat_completeness auto
termination
  by (relation "measure (\<lambda>(worksheet, rng, headers, row, col, rowData). e_c rng + 1 - col)") auto

declare processColumns.simps [simp del]

text \<open>
  The condition \<open>sNo && jobDetails && !isNaN(Number(sNo)) && jobDetails.toString().trim() !== ''\<close>
  on the two properties of the row object, each of which may be missing.
\<close>

definition validRow :: "jsval option \<Rightarrow> jsval option \<Rightarrow> bool" where
  "validRow sNo jobDetails =
     (case sNo of
        None \<Rightarrow> False
      | Some s \<Rightarrow>
          truthy s \<and>
          (case jobDetails of
             None \<Rightarrow> False
           | Some j \<Rightarrow> truthy j \<and> \<not> isNaN (Number s) \<and> trim (toString j) \<noteq> ''''))"

text \<open>The metadata of an admitted row; \<open>now\<close> is \<open>new Date().toISOString()\<close>.\<close>

definition addMetadata :: "string \<Rightarrow> jsval \<Rightarrow> rowData \<Rightarrow> rowData" where
  "addMetadata now sNo rowData =
     rowData(''id'' \<mapsto> Str (''row-'' @ toString sNo),
             ''rowNumber'' \<mapsto> Num (Number sNo),
             ''uploadDate'' \<mapsto> Str now)"

definition admitRow :: "string \<Rightarrow> rowData \<Rightarrow> rowData list \<Rightarrow> rowData list" where
  "admitRow now rowData jsonData =
     (case rowData ''S.No'' of
        None \<Rightarrow> jsonData
      | Some sNo \<Rightarrow>
          (if validRow (Some sNo) (rowData ''Job Details'')
           then jsonData @ [addMetadata now sNo rowData]
           else jsonData))"

text \<open>
  The loop over the data rows. The clock is read once for each admitted row; \<open>clock row\<close>
  is its reading while row \<open>row\<close> is processed.
\<close>

function processRows ::
  "(nat \<Rightarrow> string) \<Rightarrow> worksheet \<Rightarrow> sheet_range \<Rightarrow> jsval list \<Rightarrow> nat \<Rightarrow> rowData list
     \<Rightarrow> error + rowData list" where
  "processRows clock worksheet rng headers row jsonData =
     (if row \<le> e_r rng then
        (case processColumns worksheet rng headers row (s_c rng) Map.empty of
           Inl e \<Rightarrow> Inl e
         | Inr rowData \<Rightarrow>
             processRows clock worksheet rng headers (row + 1)
               (admitRow (clock row) rowData jsonData))
      else Inr jsonData)"
  by pat_completeness auto
termination
  by (relation "measure (\<lambda>(clock, worksheet, rng, headers, row, jsonData). e_r rng + 1 - row)") auto

declare processRows.simps [simp del]

subsection \<open>Sorting\<close>

text \<open>The subtraction of two numbers.\<close>

fun js_sub :: "jsnum \<Rightarrow> jsnum \<Rightarrow> jsnum" where
  "js_sub NaN b = NaN"
| "js_sub a NaN = NaN"
| "js_sub (Fin x) (Fin y) = Fin (x - y)"
| "js_sub (Fin x) PosInf = NegInf"
| "js_sub (Fin x) NegInf = PosInf"
| "js_sub PosInf PosInf = NaN"
| "js_sub PosInf b = PosInf"
| "js_sub NegInf NegInf = NaN"
| "js_sub NegInf b = NegInf"

text \<open>The comparator \<open>(a, b) => (a.rowNumber || 0) - (b.rowNumber || 0)\<close>.\<close>

definition rowNumberOr0 :: "rowData \<Rightarrow> jsval" where
  "rowNumberOr0 a =
     (case a ''rowNumber'' of None \<Rightarrow> Num (Fin 0) | Some x \<Rightarrow> js_or x (Num (Fin 0)))"

definition compareRows :: "rowData \<Rightarrow> rowData \<Rightarrow> jsnum" where
  "compareRows a b = js_sub (Number (rowNumberOr0 a)) (Number (rowNumberOr0 b))"

text \<open>
  \<open>Array.prototype.sort\<close> with a comparator is a stable sort (ECMAScript 2019): an
  element moves behind another one only when the comparator on the two is positive, and
  a comparator result that is \<open>NaN\<close> counts as zero. With a comparator that orders its
  arguments consistently there is one such result; insertion from the right computes it.
\<close>

definition isPositive :: "jsnum \<Rightarrow> bool" where
  "isPositive n = (case n of PosInf \<Rightarrow> True | Fin q \<Rightarrow> 0 < q | _ \<Rightarrow> False)"

fun sort_insert :: "('a \<Rightarrow> 'a \<Rightarrow> jsnum) \<Rightarrow> 'a \<Rightarrow> 'a list \<Rightarrow> 'a list" where
  "sort_insert cmp x [] = [x]"
| "sort_insert cmp x (y # ys) =
     (if isPositive (cmp x y) then y # sort_insert cmp x ys else x # y # ys)"

definition Array_sort :: "('a \<Rightarrow> 'a \<Rightarrow> jsnum) \<Rightarrow> 'a list \<Rightarrow> 'a list" where
  "Array_sort cmp xs = foldr (sort_insert cmp) xs []"

text \<open>
  From the headers to the sorted rows, as the route does between reading the range and
  sending the response. The result holds the headers and the sorted \<open>jsonData\<close>.
\<close>

definition processWorksheet ::
  "(nat \<Rightarrow> string) \<Rightarrow> worksheet \<Rightarrow> sheet_range \<Rightarrow> error + (jsval list \<times> rowData list)" where
  "processWorksheet clock worksheet rng =
     (let headers = extractHeaders worksheet rng (s_c rng) []
      in case processRows clock worksheet rng headers (s_r rng + 1) [] of
           Inl e \<Rightarrow> Inl e
         | Inr jsonData \<Rightarrow> Inr (headers, Array_sort compareRows jsonData))"

section \<open>The pipeline in the words of the specification\<close>


text \<open>
  Step 1: the label of a column is the resolved value of its header cell, and the
  placeholder with the position of the column, counted from one, when that is empty.
\<close>

definition spec_header :: "worksheet \<Rightarrow> sheet_range \<Rightarrow> nat \<Rightarrow> jsval" where
  "spec_header worksheet rng col =
     (if getFormattedCellValue worksheet (s_r rng, col) = Str ''''
      then Str (''Column'' @ natToString (col + 1))
      else getFormattedCellValue worksheet (s_r rng, col))"







fun num_le :: "jsnum \<Rightarrow> jsnum \<Rightarrow> bool" where
  "num_le NaN b = False"
| "num_le a NaN = False"
| "num_le NegInf b = True"
| "num_le a PosInf = True"
| "num_le (Fin x) (Fin y) = (x \<le> y)"
| "num_le a b = False"

text \<open>A sheet of formatted texts, row by row, for the examples; an empty text is no cell.\<close>

definition sheetOf :: "string list list \<Rightarrow> worksheet" where
  "sheetOf rows =
     (\<lambda>(r, c). if r < length rows \<and> c < length (rows ! r) \<and> rows ! r ! c \<noteq> ''''
               then Some \<lparr>cell_w = Some (rows ! r ! c), cell_v = None\<rparr>
               else None)"

definition ex_sheet :: worksheet where
  "ex_sheet =
     sheetOf
       [[''S.No'', ''Job Detail'', '''', ''Status'', ''Column X''],
        [''2'', ''Fix pump'', ''x'', ''active'', ''y''],
        [''abc'', ''Fix pump'', ''x'', ''active'', ''y''],
        [''  '', ''Weld'', ''x'', ''05-Jan'', ''y''],
        [''3'', ''  '', ''q'', ''off'', ''z''],
        [''1'', ''Paint'', '''', '''', '''']]"

definition ex_range :: sheet_range where
  "ex_range = \<lparr>s_r = 0, s_c = 0, e_r = 5, e_c = 4\<rparr>"

definition ex_ties :: worksheet where
  "ex_ties =
     sheetOf
       [[''S.No'', ''Job Details''],
        [''2'', ''B''],
        [''1'', ''A''],
        [''2'', ''C''],
        [''1.0'', ''D'']]"

definition ex_ties_range :: sheet_range where
  "ex_ties_range = \<lparr>s_r = 0, s_c = 0, e_r = 4, e_c = 1\<rparr>"

section \<open>The upload pipeline of the serverless function\<close>

text \<open>
  The serverless function repeats the loops of the Express route in its own file. They
  are embedded again here, from that file, next to its copies of the three helpers.
\<close>

function api_extractHeaders :: "worksheet \<Rightarrow> sheet_range \<Rightarrow> nat \<Rightarrow> jsval list \<Rightarrow> jsval list" where
  "api_extractHeaders worksheet rng col headers =
     (if col \<le> e_c rng then
        api_extractHeaders worksheet rng (col + 1)
          (headers @ [js_or (api_getFormattedCellValue worksheet (s_r rng, col))
                            (Str (''Column'' @ natToString (col + 1)))])
      else headers)"
  by pat_completeness auto
termination
  by (relation "measure (\<lambda>(worksheet, rng, col, headers). e_c rng + 1 - col)") auto

declare api_extractHeaders.simps [simp del]

definition api_cleanHeader :: "string \<Rightarrow> string" where
  "api_cleanHeader header =
     (if str_includes (toLowerCase header) ''s.no'' \<or> str_includes (toLowerCase header) ''s no''
         \<or> toLowerCase header = ''s.no'' then ''S.No''
      else if str_includes (toLowerCase header) ''job'' \<and> str_includes (toLowerCase header) ''detail''
        then ''Job Details''
      else if str_includes (toLowerCase header) ''comment'' then ''Comments''
      else header)"

definition api_processColumn :: "jsval option \<Rightarrow> jsval \<Rightarrow> rowData \<Rightarrow> error + rowData" where
  "api_processColumn header cellValue rowData =
     (case header of
        None \<Rightarrow> Inr rowData
      | Some h \<Rightarrow>
          (if \<not> truthy h then Inr rowData
           else
             (case h of
                Num n \<Rightarrow> Inl TypeError
              | Str hs \<Rightarrow>
                  (if startsWith hs ''Column'' then Inr rowData
                   else
                     (let ch = api_cleanHeader hs;
                          stored = rowData(ch \<mapsto> js_or cellValue (Str ''''))
                      in if ch \<notin> set [''S.No'', ''Job Details'', ''Comments''] then
                           (let statusInfo = api_getStatusInfo cellValue
                            in Inr (stored(ch @ ''_status'' \<mapsto> Str (status statusInfo),
                                           ch @ ''_color'' \<mapsto> Str (color statusInfo),
                                           ch @ ''_type'' \<mapsto> Str (type statusInfo))))
                         else Inr stored)))))"

function api_processColumns ::
  "worksheet \<Rightarrow> sheet_range \<Rightarrow> jsval list \<Rightarrow> nat \<Rightarrow> nat \<Rightarrow> rowData \<Rightarrow> error + rowData" where
  "api_processColumns worksheet rng headers row col rowData =
     (if col \<le> e_c rng then
        (case api_processColumn (headerAt headers (col - s_c rng))
                (api_getFormattedCellValue worksheet (row, col)) rowData of
           Inl e \<Rightarrow> Inl e
         | Inr rowData' \<Rightarrow> api_processColumns worksheet rng headers row (col + 1) rowData')
      else Inr rowData)"
  by pat_completeness auto
termination
  by (relation "measure (\<lambda>(worksheet, rng, headers, row, col, rowData). e_c rng + 1 - col)") auto

declare api_processColumns.simps [simp del]

definition api_validRow :: "jsval option \<Rightarrow> jsval option \<Rightarrow> bool" where
  "api_validRow sNo jobDetails =
     (case sNo of
        None \<Rightarrow> False
      | Some s \<Rightarrow>
          truthy s \<and>
          (case jobDetails of
             None \<Rightarrow> False
           | Some j \<Rightarrow> truthy j \<and> \<not> isNaN (Number s) \<and> trim (toString j) \<noteq> ''''))"

definition api_addMetadata :: "string \<Rightarrow> jsval \<Rightarrow> rowData \<Rightarrow> rowData" where
  "api_addMetadata now sNo rowData =
     rowData(''id'' \<mapsto> Str (''row-'' @ toString sNo),
             ''rowNumber'' \<mapsto> Num (Number sNo),
             ''uploadDate'' \<mapsto> Str now)"

definition api_admitRow :: "string \<Rightarrow> rowData \<Rightarrow> rowData list \<Rightarrow> rowData list" where
  "api_admitRow now rowData jsonData =
     (case rowData ''S.No'' of
        None \<Rightarrow> jsonData
      | Some sNo \<Rightarrow>
          (if api_validRow (Some sNo) (rowData ''Job Details'')
           then jsonData @ [api_addMetadata now sNo rowData]
           else jsonData))"

function api_processRows ::
  "(nat \<Rightarrow> string) \<Rightarrow> worksheet \<Rightarrow> sheet_range \<Rightarrow> jsval list \<Rightarrow> nat \<Rightarrow> rowData list
     \<Rightarrow> error + rowData list" where
  "api_processRows clock worksheet rng headers row jsonData =
     (if row \<le> e_r rng then
        (case api_processColumns worksheet rng headers row (s_c rng) Map.empty of
           Inl e \<Rightarrow> Inl e
         | Inr rowData \<Rightarrow>
             api_processRows clock worksheet rng headers (row + 1)
               (api_admitRow (clock row) rowData jsonData))
      else Inr jsonData)"
  by pat_completeness auto
termination
  by (relation "measure (\<lambda>(clock, worksheet, rng, headers, row, jsonData). e_r rng + 1 - row)") auto

declare api_processRows.simps [simp del]

definition api_rowNumberOr0 :: "rowData \<Rightarrow> jsval" where
  "api_rowNumberOr0 a =
     (case a ''rowNumber'' of None \<Rightarrow> Num (Fin 0) | Some x \<Rightarrow> js_or x (Num (Fin 0)))"

definition api_compareRows :: "rowData \<Rightarrow> rowData \<Rightarrow> jsnum" where
  "api_compareRows a b = js_sub (Number (api_rowNumberOr0 a)) (Number (api_rowNumberOr0 b))"

definition api_processWorksheet ::
  "(nat \<Rightarrow> string) \<Rightarrow> worksheet \<Rightarrow> sheet_range \<Rightarrow> error + (jsval list \<times> rowData list)" where
  "api_processWorksheet clock worksheet rng =
     (let headers = api_extractHeaders worksheet rng (s_c rng) []
      in case api_processRows clock worksheet rng headers (s_r rng + 1) [] of
           Inl e \<Rightarrow> Inl e
         | Inr jsonData \<Rightarrow> Inr (headers, Array_sort api_compareRows jsonData))"

section \<open>The two request handlers and the uploaded file\<close>

text \<open>
  The handlers work on the directory of uploaded files, the set of the paths that exist.
  Reading the workbook at a path, taking its first sheet and decoding its range
  (\<open>XLSX.readFile\<close>, \<open>workbook.Sheets[workbook.SheetNames[0]]\<close>, \<open>XLSX.utils.decode_range\<close>)
  is one step \<open>readSheet\<close> of the decoder, which gives the sheet with its range or raises.
  A response is its status code and its body.
\<close>

datatype body =
    NoBody
  | ErrorBody string
  | FailureBody string error
  | UploadBody "rowData list" nat string string

record response =
  res_status :: nat
  res_body :: body

record upload =
  up_path :: string
  up_type :: string
  up_name :: string

type_synonym decoder = "string \<Rightarrow> error + (worksheet \<times> sheet_range)"

definition allowedMimes :: "string list" where
  "allowedMimes =
     [''application/vnd.openxmlformats-officedocument.spreadsheetml.sheet'',
      ''application/vnd.ms-excel'',
      ''text/csv'']"

text \<open>\<open>fs.unlinkSync\<close> raises when there is no file at the path.\<close>

definition unlinkSync :: "string \<Rightarrow> string set \<Rightarrow> error + string set" where
  "unlinkSync path files = (if path \<in> files then Inr (files - {path}) else Inl NoSuchFile)"

definition failed :: "error \<Rightarrow> response" where
  "failed e = \<lparr>res_status = 500, res_body = FailureBody ''Failed to process Excel file'' e\<rparr>"

text \<open>
  The serverless function. The form parser has stored the uploaded file under its path
  before the handler looks at it; \<open>req_form\<close> is what the parser returns, an error or
  the file of the field \<open>excel\<close>, if there is one. Every exception inside the \<open>try\<close> block
  ends in the \<open>catch\<close> block, which sends the failure and does nothing else.
\<close>

record api_request =
  req_method :: string
  req_form :: "error + upload option"

definition handler ::
  "(nat \<Rightarrow> string) \<Rightarrow> string \<Rightarrow> decoder \<Rightarrow> api_request \<Rightarrow> string set \<Rightarrow> response \<times> string set" where
  "handler clock now readSheet req files =
     (if req_method req = ''OPTIONS'' then (\<lparr>res_status = 200, res_body = NoBody\<rparr>, files)
      else if req_method req \<noteq> ''POST'' then
        (\<lparr>res_status = 405, res_body = ErrorBody ''Method not allowed''\<rparr>, files)
      else
        (case req_form req of
           Inl e \<Rightarrow> (failed e, files)
         | Inr None \<Rightarrow> (\<lparr>res_status = 400, res_body = ErrorBody ''No file uploaded''\<rparr>, files)
         | Inr (Some file) \<Rightarrow>
             (if up_type file \<notin> set allowedMimes then
                (case unlinkSync (up_path file) files of
                   Inl e \<Rightarrow> (failed e, files)
                 | Inr files' \<Rightarrow>
                     (\<lparr>res_status = 400,
                       res_body = ErrorBody ''Invalid file type. Only Excel and CSV files are allowed.''\<rparr>,
                      files'))
              else
                (case readSheet (up_path file) of
                   Inl e \<Rightarrow> (failed e, files)
                 | Inr (worksheet, rng) \<Rightarrow>
                     (case api_processWorksheet clock worksheet rng of
                        Inl e \<Rightarrow> (failed e, files)
                      | Inr (headers, jsonData) \<Rightarrow>
                          (case unlinkSync (up_path file) files of
                             Inl e \<Rightarrow> (failed e, files)
                           | Inr files' \<Rightarrow>
                               (\<lparr>res_status = 200,
                                 res_body = UploadBody jsonData (length jsonData) (up_name file) now\<rparr>,
                                files')))))))"

text \<open>
  The route of the Express server. The upload middleware has stored the file before the
  route runs (\<open>req.file\<close>); a file of another type is refused by the filter of the
  middleware before anything is stored, and the route does not run. The \<open>catch\<close> block
  removes the file if it is still there.
\<close>

record express_request =
  req_file :: "upload option"

definition route_try :: "(nat \<Rightarrow> string) \<Rightarrow> string \<Rightarrow> decoder \<Rightarrow> upload \<Rightarrow> string set
    \<Rightarrow> error + (response \<times> string set)" where
  "route_try clock now readSheet file files =
     (case readSheet (up_path file) of
        Inl e \<Rightarrow> Inl e
      | Inr (worksheet, rng) \<Rightarrow>
          (case processWorksheet clock worksheet rng of
             Inl e \<Rightarrow> Inl e
           | Inr (headers, jsonData) \<Rightarrow>
               (case unlinkSync (up_path file) files of
                  Inl e \<Rightarrow> Inl e
                | Inr files' \<Rightarrow>
                    Inr (\<lparr>res_status = 200,
                          res_body = UploadBody jsonData (length jsonData) (up_name file) now\<rparr>,
                         files'))))"

definition upload_excel ::
  "(nat \<Rightarrow> string) \<Rightarrow> string \<Rightarrow> decoder \<Rightarrow> express_request \<Rightarrow> string set
     \<Rightarrow> response \<times> string set" where
  "upload_excel clock now readSheet req files =
     (case req_file req of
        None \<Rightarrow> (\<lparr>res_status = 400, res_body = ErrorBody ''No file uploaded''\<rparr>, files)
      | Some file \<Rightarrow>
          (case route_try clock now readSheet file files of
             Inr done \<Rightarrow> done
           | Inl e \<Rightarrow>
               (failed e, if up_path file \<in> files then files - {up_path file} else files)))"

section \<open>The cell formatting rule\<close>











section \<open>Status classification is the cascade of the specification\<close>

lemma resolved_truthy_or_empty:
  "truthy (getFormattedCellValue worksheet a) \<or> getFormattedCellValue worksheet a = Str ''''"
proof (cases "worksheet a")
  case None
  then show ?thesis by (simp add: getFormattedCellValue_def)
next
  case (Some c)
  show ?thesis
  proof (cases "cell_w c \<noteq> None \<and> cell_w c \<noteq> Some ''''")
    case True
    then show ?thesis using Some by (auto simp: getFormattedCellValue_def truthy_def)
  next
    case False
    show ?thesis
    proof (cases "cell_v c")
      case None
      then show ?thesis using Some False by (auto simp: getFormattedCellValue_def)
    next
      case (Some r)
      then show ?thesis using \<open>worksheet a = Some c\<close> False
        by (cases r)
          (auto simp: getFormattedCellValue_def truthy_def convertExcelTime_def Let_def timeString_def)
    qed
  qed
qed












section \<open>Header extraction\<close>

lemma extractHeaders_eq:
  "extractHeaders worksheet rng col hs =
     hs @ map (\<lambda>c. js_or (getFormattedCellValue worksheet (s_r rng, c)) (Str (''Column'' @ natToString (c + 1))))
            [col ..< e_c rng + 1]"
proof (induction worksheet rng col hs rule: extractHeaders.induct)
  case (1 worksheet rng col headers)
  show ?case
  proof (cases "col \<le> e_c rng")
    case True
    then have "[col ..< e_c rng + 1] = col # [col + 1 ..< e_c rng + 1]"
      by (simp add: upt_conv_Cons)
    with True 1 show ?thesis
      by (subst extractHeaders.simps) simp
  next
    case False
    then show ?thesis by (subst extractHeaders.simps) simp
  qed
qed

lemma js_or_resolved:
  "js_or (getFormattedCellValue worksheet a) d =
     (if getFormattedCellValue worksheet a = Str '''' then d else getFormattedCellValue worksheet a)"
  using resolved_truthy_or_empty [of worksheet a] by (auto simp: js_or_def truthy_def)

lemma extractHeaders_spec:
  "extractHeaders worksheet rng (s_c rng) [] = map (spec_header worksheet rng) [s_c rng ..< e_c rng + 1]"
  by (simp add: extractHeaders_eq js_or_resolved spec_header_def)

text \<open>
  C6. Header extraction yields one label for each column of the range, in the order of
  the columns: the resolved value of the header cell, or the placeholder \<open>Column\<close>
  followed by the position of the column counted from one, when that value is empty.
\<close>

theorem header_extraction:
  "length (extractHeaders worksheet rng (s_c rng) []) = e_c rng + 1 - s_c rng
   \<and> (\<forall>i < e_c rng + 1 - s_c rng.
        extractHeaders worksheet rng (s_c rng) [] ! i = spec_header worksheet rng (s_c rng + i))"
  by (simp add: extractHeaders_spec del: upt_Suc)

theorem header_extraction_witness:
  "length (extractHeaders ex_sheet ex_range (s_c ex_range) []) = 5
   \<and> extractHeaders ex_sheet ex_range (s_c ex_range) [] ! 2 = Str ''Column3''
   \<and> extractHeaders ex_sheet ex_range (s_c ex_range) [] ! 3 = Str ''Status''"
proof -
  have "spec_header ex_sheet ex_range 2 = Str ''Column3''"
    "spec_header ex_sheet ex_range 3 = Str ''Status''"
    "s_c ex_range = 0" "e_c ex_range = 4"
    by code_simp+
  then show ?thesis
    using header_extraction [of ex_sheet ex_range] by simp
qed

section \<open>Row extraction and admission\<close>






























section \<open>A serial number of whitespace\<close>







section \<open>The final order\<close>




lemma num_le_antisym: "num_le a b \<Longrightarrow> num_le b a \<Longrightarrow> a = b"
  by (cases a; cases b) auto









section \<open>Skipped columns and canonical field names\<close>





























section \<open>The two pipelines agree\<close>

lemma api_convertExcelTime_eq: "api_convertExcelTime = convertExcelTime"
  by (intro ext) (simp add: api_convertExcelTime_def convertExcelTime_def)

lemma api_getFormattedCellValue_eq: "api_getFormattedCellValue = getFormattedCellValue"
  unfolding api_getFormattedCellValue_def getFormattedCellValue_def api_convertExcelTime_eq
  by (rule refl)

lemma api_getStatusInfo_eq: "api_getStatusInfo = getStatusInfo"
  unfolding api_getStatusInfo_def getStatusInfo_def by (rule refl)

lemma api_extractHeaders_eq:
  "api_extractHeaders worksheet rng col headers = extractHeaders worksheet rng col headers"
proof (induction worksheet rng col headers rule: extractHeaders.induct)
  case (1 worksheet rng col headers)
  show ?case
  proof (cases "col \<le> e_c rng")
    case True
    with 1 show ?thesis
      by (subst api_extractHeaders.simps, subst extractHeaders.simps)
        (simp add: api_getFormattedCellValue_eq)
  next
    case False
    then show ?thesis
      by (subst api_extractHeaders.simps, subst extractHeaders.simps) simp
  qed
qed

lemma api_cleanHeader_eq: "api_cleanHeader = cleanHeader"
  unfolding api_cleanHeader_def cleanHeader_def by (rule refl)

lemma api_processColumn_eq: "api_processColumn = processColumn"
  unfolding api_processColumn_def processColumn_def api_cleanHeader_eq api_getStatusInfo_eq
  by (rule refl)

lemma api_processColumns_eq:
  "api_processColumns worksheet rng headers row col rowData =
   processColumns worksheet rng headers row col rowData"
proof (induction worksheet rng headers row col rowData rule: processColumns.induct)
  case (1 worksheet rng headers row col rowData)
  show ?case
  proof (cases "col \<le> e_c rng")
    case True
    show ?thesis
    proof (cases "processColumn (headerAt headers (col - s_c rng))
        (getFormattedCellValue worksheet (row, col)) rowData")
      case (Inl e)
      with True show ?thesis
        by (subst api_processColumns.simps, subst processColumns.simps)
          (simp add: api_processColumn_eq api_getFormattedCellValue_eq)
    next
      case (Inr r1)
      with True "1.IH" [OF True Inr] show ?thesis
        by (subst api_processColumns.simps, subst processColumns.simps)
          (simp add: api_processColumn_eq api_getFormattedCellValue_eq)
    qed
  next
    case False
    then show ?thesis
      by (subst api_processColumns.simps, subst processColumns.simps) simp
  qed
qed

lemma api_validRow_eq: "api_validRow = validRow"
  unfolding api_validRow_def validRow_def by (rule refl)

lemma api_addMetadata_eq: "api_addMetadata = addMetadata"
  unfolding api_addMetadata_def addMetadata_def by (rule refl)

lemma api_admitRow_eq: "api_admitRow = admitRow"
  unfolding api_admitRow_def admitRow_def api_validRow_eq api_addMetadata_eq by (rule refl)

lemma api_processRows_eq:
  "api_processRows clock worksheet rng headers row jsonData =
   processRows clock worksheet rng headers row jsonData"
proof (induction clock worksheet rng headers row jsonData rule: processRows.induct)
  case (1 clock worksheet rng headers row jsonData)
  show ?case
  proof (cases "row \<le> e_r rng")
    case True
    show ?thesis
    proof (cases "processColumns worksheet rng headers row (s_c rng) Map.empty")
      case (Inl e)
      with True show ?thesis
        by (subst api_processRows.simps, subst processRows.simps)
          (simp add: api_processColumns_eq)
    next
      case (Inr rowData)
      with True "1.IH" [OF True Inr] show ?thesis
        by (subst api_processRows.simps, subst processRows.simps)
          (simp add: api_processColumns_eq api_admitRow_eq)
    qed
  next
    case False
    then show ?thesis
      by (subst api_processRows.simps, subst processRows.simps) simp
  qed
qed

lemma api_compareRows_eq: "api_compareRows = compareRows"
  unfolding api_compareRows_def compareRows_def api_rowNumberOr0_def rowNumberOr0_def
  by (rule refl)

lemma api_extractHeaders_fun: "api_extractHeaders = extractHeaders"
  by (intro ext) (rule api_extractHeaders_eq)

lemma api_processRows_fun: "api_processRows = processRows"
  by (intro ext) (rule api_processRows_eq)

text \<open>
  C8. The pipeline of the serverless function and the pipeline of the Express route are
  equal as functions: on every sheet and range, and with the same clock, they return the
  same headers and the same rows in the same order, or the same error. Their copies of
  header extraction, cell formatting, status classification, row admission and the sort
  agree one by one.
\<close>

theorem pipelines_agree:
  "api_processWorksheet clock worksheet rng = processWorksheet clock worksheet rng
   \<and> api_extractHeaders worksheet rng (s_c rng) [] = extractHeaders worksheet rng (s_c rng) []
   \<and> api_getFormattedCellValue worksheet a = getFormattedCellValue worksheet a
   \<and> api_getStatusInfo x = getStatusInfo x
   \<and> api_admitRow now rowData jsonData = admitRow now rowData jsonData
   \<and> Array_sort api_compareRows jsonData = Array_sort compareRows jsonData"
  unfolding api_processWorksheet_def processWorksheet_def api_extractHeaders_fun
    api_processRows_fun api_compareRows_eq api_getFormattedCellValue_eq api_getStatusInfo_eq
    api_admitRow_eq
  by simp

theorem pipelines_agree_witness:
  "api_processWorksheet (\<lambda>row. ''T'') ex_ties ex_ties_range =
     processWorksheet (\<lambda>row. ''T'') ex_ties ex_ties_range
   \<and> map (\<lambda>rowData. rowData ''id'')
       (snd (projr (processWorksheet (\<lambda>row. ''T'') ex_ties ex_ties_range)))
     = [Some (Str ''row-1''), Some (Str ''row-1.0''), Some (Str ''row-2''), Some (Str ''row-2'')]
   \<and> api_getStatusInfo (Str ''pending'') = getStatusInfo (Str ''pending'')"
proof -
  have "map (\<lambda>rowData. rowData ''id'')
       (snd (projr (api_processWorksheet (\<lambda>row. ''T'') ex_ties ex_ties_range)))
     = [Some (Str ''row-1''), Some (Str ''row-1.0''), Some (Str ''row-2''), Some (Str ''row-2'')]"
    by code_simp
  then show ?thesis
    using pipelines_agree [of "\<lambda>row. ''T''" ex_ties ex_ties_range "(0, 0)" "Str ''pending''"]
    by simp
qed

section \<open>The uploaded file after the handler returns\<close>

lemma upload_excel_removes_file:
  "up_path file \<notin> snd (upload_excel clock now readSheet \<lparr>req_file = Some file\<rparr> files)"
proof (cases "route_try clock now readSheet file files")
  case (Inl e)
  then show ?thesis by (simp add: upload_excel_def)
next
  case (Inr out)
  then have "up_path file \<notin> snd out"
    by (auto simp: route_try_def unlinkSync_def split: sum.splits prod.splits if_splits)
  with Inr show ?thesis by (simp add: upload_excel_def)
qed

lemma handler_removes_file_unless_failed:
  assumes "req_form req = Inr (Some file)" "req_method req = ''POST''"
    and "handler clock now readSheet req files = (res, files')" "res_status res \<noteq> 500"
  shows "up_path file \<notin> files'"
  using assms
  by (auto simp: handler_def unlinkSync_def failed_def split: sum.splits prod.splits if_splits)

lemma handler_keeps_file_on_failure:
  assumes "req_form req = Inr (Some file)" "req_method req = ''POST''"
    and "up_type file \<in> set allowedMimes" "up_path file \<in> files"
    and "readSheet (up_path file) = Inl e"
  shows "handler clock now readSheet req files = (failed e, files)"
  using assms by (simp add: handler_def)

text \<open>
  C9. The claim that the uploaded file is removed on every exit path holds for the
  Express route and fails for the serverless function. On an upload of an allowed type
  that the decoder cannot read, the serverless function sends the failure and the file
  is still there; the Express route, on the same upload, removes it.
\<close>

theorem handler_leaves_file_after_decode_failure:
  "handler (\<lambda>row. ''T'') ''T'' (\<lambda>path. Inl DecodeFailure)
     \<lparr>req_method = ''POST'',
      req_form = Inr (Some \<lparr>up_path = ''/tmp/upload_1.xlsx'',
                              up_type = ''application/vnd.ms-excel'',
                              up_name = ''jobs.xlsx''\<rparr>)\<rparr>
     {''/tmp/upload_1.xlsx''}
   = (\<lparr>res_status = 500, res_body = FailureBody ''Failed to process Excel file'' DecodeFailure\<rparr>,
      {''/tmp/upload_1.xlsx''})
   \<and> upload_excel (\<lambda>row. ''T'') ''T'' (\<lambda>path. Inl DecodeFailure)
     \<lparr>req_file = Some \<lparr>up_path = ''/tmp/upload_1.xlsx'',
                         up_type = ''application/vnd.ms-excel'',
                         up_name = ''jobs.xlsx''\<rparr>\<rparr>
     {''/tmp/upload_1.xlsx''}
   = (\<lparr>res_status = 500, res_body = FailureBody ''Failed to process Excel file'' DecodeFailure\<rparr>,
      {})"
  by (simp add: handler_def upload_excel_def route_try_def failed_def allowedMimes_def)

end
